theory Spec2Isabelle
  imports Complex_Main
begin

section \<open>Values, messages and errors\<close>

text \<open>
  The configuration module \<^verbatim>\<open>src/modules/config/blip3o_config.py\<close> only stores
  values and compares them. Python's unbounded \<^verbatim>\<open>int\<close> is \<^typ>\<open>int\<close>. A Python
  \<^verbatim>\<open>float\<close> is a finite value (denoted by the real number it stands for), an
  infinity or a NaN; the module never computes with floats, it only compares them with
  the literals 0, 1 and 10, and these comparisons are exact.
\<close>

datatype pyfloat = Fin real | PosInf | NegInf | NaN

text \<open>\<^verbatim>\<open>a <= b\<close> and \<^verbatim>\<open>a < b\<close> on floats: every comparison with a NaN is false.\<close>

fun float_le :: "pyfloat \<Rightarrow> pyfloat \<Rightarrow> bool" where
  "float_le NaN _ = False"
| "float_le _ NaN = False"
| "float_le NegInf _ = True"
| "float_le _ PosInf = True"
| "float_le (Fin a) (Fin b) = (a \<le> b)"
| "float_le PosInf _ = False"
| "float_le _ NegInf = False"

fun float_lt :: "pyfloat \<Rightarrow> pyfloat \<Rightarrow> bool" where
  "float_lt NaN _ = False"
| "float_lt _ NaN = False"
| "float_lt PosInf _ = False"
| "float_lt _ NegInf = False"
| "float_lt (Fin a) (Fin b) = (a < b)"
| "float_lt NegInf _ = True"
| "float_lt _ PosInf = True"

text \<open>
  The value of an entry of \<^verbatim>\<open>rope_scaling: Optional[Dict[str, Any]]\<close>; the module
  stores the dictionary and never looks inside.
\<close>

datatype pyval = VInt int | VFloat pyfloat | VStr string | VBool bool | VNone

text \<open>
  An f-string is kept as the list of its pieces: the literal text and the interpolated
  values, in order. A plain message is a single literal piece. Text outside ASCII is
  given by its UTF-8 bytes.
\<close>

datatype frag = Lit string | IntV int | FloatV pyfloat | StrV string

type_synonym message = "frag list"

datatype error = AssertionError message | ValueError message | ZeroDivisionError

text \<open>\<^verbatim>\<open>assert c, msg\<close> followed by the rest of the body.\<close>

definition assert_then :: "bool \<Rightarrow> message \<Rightarrow> (error + 'a) \<Rightarrow> error + 'a" where
  "assert_then c msg rest = (if c then rest else Inl (AssertionError msg))"

text \<open>\<^verbatim>\<open>a % b\<close> and \<^verbatim>\<open>a // b\<close> on integers: floor division, an error on a zero divisor.\<close>

definition py_mod :: "int \<Rightarrow> int \<Rightarrow> error + int" where
  "py_mod a b = (if b = 0 then Inl ZeroDivisionError else Inr (a mod b))"

definition py_floordiv :: "int \<Rightarrow> int \<Rightarrow> error + int" where
  "py_floordiv a b = (if b = 0 then Inl ZeroDivisionError else Inr (a div b))"

section \<open>The model-architecture record\<close>

text \<open>
  The attributes that \<^verbatim>\<open>BLIP3oDiTConfig.__init__\<close> stores, in the order it stores them.
  The attribute \<^verbatim>\<open>_gradient_checkpointing\<close> is the field \<open>p_gradient_checkpointing\<close>.
\<close>

record BLIP3oDiTConfig =
  input_size :: int
  patch_size :: int
  in_channels :: int
  dim :: int
  n_layers :: int
  n_heads :: int
  n_kv_heads :: int
  qk_norm :: bool
  norm_eps :: pyfloat
  eva_embedding_size :: int
  mlp_hidden_dim :: int
  mlp_num_layers :: int
  mlp_dropout :: pyfloat
  mlp_activation :: string
  learn_sigma :: bool
  p_gradient_checkpointing :: bool
  rope_base :: pyfloat
  rope_scaling :: "(string \<times> pyval) list option"
  initializer_range :: pyfloat
  use_flash_attention :: bool
  attention_dropout :: pyfloat
  intermediate_size :: int
  hidden_dropout :: pyfloat
  max_position_embeddings :: int

text \<open>
  The keyword arguments of a call \<^verbatim>\<open>BLIP3oDiTConfig(...)\<close>, and a dictionary passed as
  \<^verbatim>\<open>**kwargs\<close>: for each parameter of the constructor, \<open>None\<close> when the key is
  absent and \<open>Some v\<close> when it is supplied with the value \<open>v\<close>, of the parameter's
  annotated type. For the two parameters annotated \<^verbatim>\<open>Optional[int]\<close> and for
  \<^verbatim>\<open>rope_scaling\<close> the supplied value may itself be Python's \<^verbatim>\<open>None\<close>. Keys that
  name no parameter are handed on to the constructor of the library class
  \<^verbatim>\<open>PretrainedConfig\<close>, which is not part of this module; they reach no attribute
  above and are left out.
\<close>

record kwargs =
  k_input_size :: "int option"
  k_patch_size :: "int option"
  k_in_channels :: "int option"
  k_dim :: "int option"
  k_n_layers :: "int option"
  k_n_heads :: "int option"
  k_n_kv_heads :: "int option option"
  k_qk_norm :: "bool option"
  k_norm_eps :: "pyfloat option"
  k_eva_embedding_size :: "int option"
  k_mlp_hidden_dim :: "int option"
  k_mlp_num_layers :: "int option"
  k_mlp_dropout :: "pyfloat option"
  k_mlp_activation :: "string option"
  k_learn_sigma :: "bool option"
  k_gradient_checkpointing :: "bool option"
  k_rope_base :: "pyfloat option"
  k_rope_scaling :: "(string \<times> pyval) list option option"
  k_initializer_range :: "pyfloat option"
  k_use_flash_attention :: "bool option"
  k_attention_dropout :: "pyfloat option"
  k_intermediate_size :: "int option option"
  k_hidden_dropout :: "pyfloat option"
  k_max_position_embeddings :: "int option"

text \<open>The empty dictionary: a call without arguments.\<close>

definition no_kwargs :: kwargs where
  "no_kwargs =
     \<lparr>k_input_size = None, k_patch_size = None, k_in_channels = None, k_dim = None,
      k_n_layers = None, k_n_heads = None, k_n_kv_heads = None, k_qk_norm = None,
      k_norm_eps = None, k_eva_embedding_size = None, k_mlp_hidden_dim = None,
      k_mlp_num_layers = None, k_mlp_dropout = None, k_mlp_activation = None,
      k_learn_sigma = None, k_gradient_checkpointing = None, k_rope_base = None,
      k_rope_scaling = None, k_initializer_range = None, k_use_flash_attention = None,
      k_attention_dropout = None, k_intermediate_size = None, k_hidden_dropout = None,
      k_max_position_embeddings = None\<rparr>"

text \<open>A parameter takes the supplied value, or its default when the key is absent.\<close>

definition arg :: "'a option \<Rightarrow> 'a \<Rightarrow> 'a" where
  "arg supplied dflt = (case supplied of Some v \<Rightarrow> v | None \<Rightarrow> dflt)"

text \<open>
  The assertions of \<^verbatim>\<open>_validate_config\<close>, in source order. The method returns nothing
  and the first failing assertion raises.
\<close>

definition validate_checks :: "BLIP3oDiTConfig \<Rightarrow> error + unit" where
  "validate_checks self =
     assert_then (dim self > 0) [Lit ''Model dimension must be positive''] (
     assert_then (n_layers self > 0) [Lit ''Number of layers must be positive''] (
     assert_then (n_heads self > 0) [Lit ''Number of heads must be positive''] (
     assert_then (n_kv_heads self > 0) [Lit ''Number of key-value heads must be positive''] (
     case py_mod (dim self) (n_heads self) of Inl e \<Rightarrow> Inl e | Inr r \<Rightarrow>
     assert_then (r = 0)
       [Lit ''dim ('', IntV (dim self), Lit '') must be divisible by n_heads ('',
        IntV (n_heads self), Lit '')''] (
     assert_then (input_size self > 0) [Lit ''Input size must be positive''] (
     assert_then (patch_size self > 0) [Lit ''Patch size must be positive''] (
     assert_then (in_channels self > 0) [Lit ''Input channels must be positive''] (
     assert_then (eva_embedding_size self > 0) [Lit ''EVA embedding size must be positive''] (
     assert_then (mlp_hidden_dim self > 0) [Lit ''MLP hidden dimension must be positive''] (
     assert_then (mlp_num_layers self > 0) [Lit ''MLP number of layers must be positive''] (
     assert_then (float_le (Fin 0) (mlp_dropout self) \<and> float_le (mlp_dropout self) (Fin 1))
       [Lit ''MLP dropout must be between 0 and 1''] (
     assert_then (mlp_activation self \<in> set [''gelu'', ''relu'', ''silu''])
       [Lit ''Unknown activation: '', StrV (mlp_activation self)] (
     assert_then (learn_sigma self = False)
       [Lit ''BLIP3-o uses flow matching, learn_sigma must be False''] (
     assert_then (in_channels self = 1024) [Lit ''CLIP embedding dimension must be 1024''] (
     assert_then (eva_embedding_size self = 4096) [Lit ''EVA-CLIP dimension must be 4096''] (
     assert_then (patch_size self = 1)
       [Lit ''Features are pre-tokenized, patch_size must be 1''] (
     assert_then (input_size self = 16)
       [Lit (''Input size must be 16 for 256 tokens (16'' @ [CHR 0xC3, CHR 0x97] @ ''16)'')] (
     Inr ()))))))))))))))))))"

text \<open>
  The method call \<^verbatim>\<open>self._validate_config()\<close> as a step on the object: its outcome and
  the object it leaves. The body assigns no attribute.
\<close>

definition validate_config :: "BLIP3oDiTConfig \<Rightarrow> (error + unit) \<times> BLIP3oDiTConfig" where
  "validate_config self = (validate_checks self, self)"

text \<open>
  \<^verbatim>\<open>BLIP3oDiTConfig.__init__\<close> up to the call of the parent constructor: the two
  unset dependent parameters are derived and every parameter is stored.
\<close>

definition init_attributes :: "kwargs \<Rightarrow> BLIP3oDiTConfig" where
  "init_attributes kw =
     (let dim' = arg (k_dim kw) 768;
          n_heads' = arg (k_n_heads kw) 12;
          n_kv_heads' = (case arg (k_n_kv_heads kw) None of None \<Rightarrow> n_heads' | Some v \<Rightarrow> v);
          intermediate_size' =
            (case arg (k_intermediate_size kw) None of None \<Rightarrow> 4 * dim' | Some v \<Rightarrow> v)
      in \<lparr>input_size = arg (k_input_size kw) 16,
          patch_size = arg (k_patch_size kw) 1,
          in_channels = arg (k_in_channels kw) 1024,
          dim = dim',
          n_layers = arg (k_n_layers kw) 16,
          n_heads = n_heads',
          n_kv_heads = n_kv_heads',
          qk_norm = arg (k_qk_norm kw) True,
          norm_eps = arg (k_norm_eps kw) (Fin (1 / 100000)),
          eva_embedding_size = arg (k_eva_embedding_size kw) 4096,
          mlp_hidden_dim = arg (k_mlp_hidden_dim kw) 2048,
          mlp_num_layers = arg (k_mlp_num_layers kw) 3,
          mlp_dropout = arg (k_mlp_dropout kw) (Fin (1 / 10)),
          mlp_activation = arg (k_mlp_activation kw) ''gelu'',
          learn_sigma = arg (k_learn_sigma kw) False,
          p_gradient_checkpointing = arg (k_gradient_checkpointing kw) True,
          rope_base = arg (k_rope_base kw) (Fin 10000),
          rope_scaling = arg (k_rope_scaling kw) None,
          initializer_range = arg (k_initializer_range kw) (Fin (2 / 100)),
          use_flash_attention = arg (k_use_flash_attention kw) False,
          attention_dropout = arg (k_attention_dropout kw) (Fin 0),
          intermediate_size = intermediate_size',
          hidden_dropout = arg (k_hidden_dropout kw) (Fin 0),
          max_position_embeddings = arg (k_max_position_embeddings kw) 1024\<rparr>)"

text \<open>
  The whole constructor: the attributes are stored, then the validation runs on the
  stored object. A failed validation leaves the caller without an object.
\<close>

definition BLIP3oDiTConfig_init :: "kwargs \<Rightarrow> error + BLIP3oDiTConfig" where
  "BLIP3oDiTConfig_init kw =
     (case validate_config (init_attributes kw) of
        (Inl e, _) \<Rightarrow> Inl e
      | (Inr _, self') \<Rightarrow> Inr self')"

definition get_num_tokens :: "BLIP3oDiTConfig \<Rightarrow> int" where
  "get_num_tokens self = input_size self * input_size self"

definition get_head_dim :: "BLIP3oDiTConfig \<Rightarrow> error + int" where
  "get_head_dim self = py_floordiv (dim self) (n_heads self)"

section \<open>The flow-matching record\<close>

text \<open>
  A dataclass: the generated constructor stores the field values (the supplied ones, the
  defaults for the rest) and then calls \<^verbatim>\<open>__post_init__\<close>.
\<close>

record FlowMatchingConfig =
  sigma_min :: pyfloat
  sigma_max :: pyfloat
  prediction_type :: string
  schedule_type :: string
  clip_dim :: int
  eva_dim :: int
  regularization_weight :: pyfloat
  alignment_loss_weight :: pyfloat
  temporal_loss_weight :: pyfloat
  use_progressive_training :: bool
  min_timestep :: pyfloat
  max_timestep :: pyfloat

definition FlowMatchingConfig_defaults :: FlowMatchingConfig where
  "FlowMatchingConfig_defaults =
     \<lparr>sigma_min = Fin (1 / 10000), sigma_max = Fin 1,
      prediction_type = ''v_prediction'', schedule_type = ''linear'',
      clip_dim = 1024, eva_dim = 4096,
      regularization_weight = Fin (1 / 100),
      alignment_loss_weight = Fin (1 / 10), temporal_loss_weight = Fin (5 / 100),
      use_progressive_training = True,
      min_timestep = Fin (1 / 1000), max_timestep = Fin (999 / 1000)\<rparr>"

text \<open>
  \<^verbatim>\<open>FlowMatchingConfig.__post_init__\<close>. A chained comparison
  \<^verbatim>\<open>0 <= a < b <= c\<close> is the conjunction of its three links.
\<close>

definition FlowMatchingConfig_post_init :: "FlowMatchingConfig \<Rightarrow> error + unit" where
  "FlowMatchingConfig_post_init self =
     assert_then (prediction_type self \<in> set [''v_prediction'', ''epsilon''])
       [Lit ''Invalid prediction type: '', StrV (prediction_type self)] (
     assert_then (schedule_type self \<in> set [''linear'', ''cosine'', ''sigmoid''])
       [Lit ''Invalid schedule type: '', StrV (schedule_type self)] (
     assert_then (float_le (Fin 0) (sigma_min self) \<and> float_lt (sigma_min self) (sigma_max self)
                  \<and> float_le (sigma_max self) (Fin 10))
       [Lit ''Invalid sigma range: ['', FloatV (sigma_min self), Lit '', '',
        FloatV (sigma_max self), Lit '']''] (
     assert_then (clip_dim self > 0) [Lit ''CLIP dimension must be positive''] (
     assert_then (eva_dim self > 0) [Lit ''EVA dimension must be positive''] (
     assert_then (float_le (Fin 0) (min_timestep self)
                  \<and> float_lt (min_timestep self) (max_timestep self)
                  \<and> float_le (max_timestep self) (Fin 1))
       [Lit ''Invalid timestep range''] (
     Inr ()))))))"

definition FlowMatchingConfig_init :: "FlowMatchingConfig \<Rightarrow> error + FlowMatchingConfig" where
  "FlowMatchingConfig_init vals =
     (case FlowMatchingConfig_post_init vals of Inl e \<Rightarrow> Inl e | Inr _ \<Rightarrow> Inr vals)"

section \<open>The training record\<close>

record TrainingConfig =
  num_train_epochs :: int
  per_device_train_batch_size :: int
  per_device_eval_batch_size :: int
  learning_rate :: pyfloat
  weight_decay :: pyfloat
  lr_scheduler_type :: string
  warmup_ratio :: pyfloat
  warmup_steps :: int
  gradient_accumulation_steps :: int
  max_grad_norm :: pyfloat
  fp16 :: bool
  bf16 :: bool
  logging_steps :: int
  eval_steps :: int
  save_steps :: int
  dataloader_num_workers :: int
  dataloader_pin_memory :: bool
  remove_unused_columns :: bool
  load_best_model_at_end :: bool
  metric_for_best_model :: string
  greater_is_better :: bool
  patch_loss_weight :: pyfloat
  global_loss_weight :: pyfloat
  flow_matching_loss_weight :: pyfloat
  use_cosine_similarity :: bool

definition TrainingConfig_defaults :: TrainingConfig where
  "TrainingConfig_defaults =
     \<lparr>num_train_epochs = 8, per_device_train_batch_size = 6,
      per_device_eval_batch_size = 4,
      learning_rate = Fin (5 / 100000), weight_decay = Fin (1 / 100),
      lr_scheduler_type = ''cosine'', warmup_ratio = Fin (5 / 100), warmup_steps = 100,
      gradient_accumulation_steps = 6, max_grad_norm = Fin 1, fp16 = True, bf16 = False,
      logging_steps = 50, eval_steps = 250, save_steps = 500,
      dataloader_num_workers = 4, dataloader_pin_memory = True,
      remove_unused_columns = False,
      load_best_model_at_end = True, metric_for_best_model = ''eval_global_cosine_mean'',
      greater_is_better = True,
      patch_loss_weight = Fin 1, global_loss_weight = Fin 2,
      flow_matching_loss_weight = Fin 1, use_cosine_similarity = False\<rparr>"

definition TrainingConfig_post_init :: "TrainingConfig \<Rightarrow> error + unit" where
  "TrainingConfig_post_init self =
     assert_then (num_train_epochs self > 0) [Lit ''Number of epochs must be positive''] (
     assert_then (per_device_train_batch_size self > 0) [Lit ''Batch size must be positive''] (
     assert_then (float_lt (Fin 0) (learning_rate self))
       [Lit ''Learning rate must be positive''] (
     assert_then (float_le (Fin 0) (weight_decay self) \<and> float_le (weight_decay self) (Fin 1))
       [Lit ''Weight decay must be between 0 and 1''] (
     assert_then (gradient_accumulation_steps self > 0)
       [Lit ''Gradient accumulation steps must be positive''] (
     Inr ())))))"

definition TrainingConfig_init :: "TrainingConfig \<Rightarrow> error + TrainingConfig" where
  "TrainingConfig_init vals =
     (case TrainingConfig_post_init vals of Inl e \<Rightarrow> Inl e | Inr _ \<Rightarrow> Inr vals)"

section \<open>Factory functions\<close>

definition get_default_blip3o_config :: "error + BLIP3oDiTConfig" where
  "get_default_blip3o_config = BLIP3oDiTConfig_init no_kwargs"

definition get_small_blip3o_config :: "error + BLIP3oDiTConfig" where
  "get_small_blip3o_config =
     BLIP3oDiTConfig_init
       (no_kwargs\<lparr>k_dim := Some 512, k_n_layers := Some 8, k_n_heads := Some 8,
                   k_mlp_hidden_dim := Some 1024, k_mlp_num_layers := Some 2\<rparr>)"

definition get_large_blip3o_config :: "error + BLIP3oDiTConfig" where
  "get_large_blip3o_config =
     BLIP3oDiTConfig_init
       (no_kwargs\<lparr>k_dim := Some 1024, k_n_layers := Some 24, k_n_heads := Some 16,
                   k_mlp_hidden_dim := Some 4096, k_mlp_num_layers := Some 4\<rparr>)"

text \<open>
  One entry of \<^verbatim>\<open>{**a, **b}\<close> and of \<^verbatim>\<open>a.update(b)\<close>: the entry of \<open>b\<close> where
  \<open>b\<close> has the key, the entry of \<open>a\<close> otherwise.
\<close>

definition entry_update :: "'a option \<Rightarrow> 'a option \<Rightarrow> 'a option" where
  "entry_update a b = (case b of Some v \<Rightarrow> Some v | None \<Rightarrow> a)"

definition dict_update :: "kwargs \<Rightarrow> kwargs \<Rightarrow> kwargs" where
  "dict_update a b =
     \<lparr>k_input_size = entry_update (k_input_size a) (k_input_size b),
      k_patch_size = entry_update (k_patch_size a) (k_patch_size b),
      k_in_channels = entry_update (k_in_channels a) (k_in_channels b),
      k_dim = entry_update (k_dim a) (k_dim b),
      k_n_layers = entry_update (k_n_layers a) (k_n_layers b),
      k_n_heads = entry_update (k_n_heads a) (k_n_heads b),
      k_n_kv_heads = entry_update (k_n_kv_heads a) (k_n_kv_heads b),
      k_qk_norm = entry_update (k_qk_norm a) (k_qk_norm b),
      k_norm_eps = entry_update (k_norm_eps a) (k_norm_eps b),
      k_eva_embedding_size = entry_update (k_eva_embedding_size a) (k_eva_embedding_size b),
      k_mlp_hidden_dim = entry_update (k_mlp_hidden_dim a) (k_mlp_hidden_dim b),
      k_mlp_num_layers = entry_update (k_mlp_num_layers a) (k_mlp_num_layers b),
      k_mlp_dropout = entry_update (k_mlp_dropout a) (k_mlp_dropout b),
      k_mlp_activation = entry_update (k_mlp_activation a) (k_mlp_activation b),
      k_learn_sigma = entry_update (k_learn_sigma a) (k_learn_sigma b),
      k_gradient_checkpointing =
        entry_update (k_gradient_checkpointing a) (k_gradient_checkpointing b),
      k_rope_base = entry_update (k_rope_base a) (k_rope_base b),
      k_rope_scaling = entry_update (k_rope_scaling a) (k_rope_scaling b),
      k_initializer_range = entry_update (k_initializer_range a) (k_initializer_range b),
      k_use_flash_attention = entry_update (k_use_flash_attention a) (k_use_flash_attention b),
      k_attention_dropout = entry_update (k_attention_dropout a) (k_attention_dropout b),
      k_intermediate_size = entry_update (k_intermediate_size a) (k_intermediate_size b),
      k_hidden_dropout = entry_update (k_hidden_dropout a) (k_hidden_dropout b),
      k_max_position_embeddings =
        entry_update (k_max_position_embeddings a) (k_max_position_embeddings b)\<rparr>"

text \<open>The four keys that \<^verbatim>\<open>get_dual_supervision_config\<close> sets in both branches.\<close>

definition dual_supervision_keys :: kwargs where
  "dual_supervision_keys =
     no_kwargs\<lparr>k_mlp_hidden_dim := Some 2048, k_mlp_num_layers := Some 3,
                k_mlp_dropout := Some (Fin (1 / 10)), k_gradient_checkpointing := Some True\<rparr>"

text \<open>The dictionary \<^verbatim>\<open>config_dict\<close> read off a base configuration: all 24 keys.\<close>

definition config_dict :: "BLIP3oDiTConfig \<Rightarrow> kwargs" where
  "config_dict base_config =
     \<lparr>k_input_size = Some (input_size base_config),
      k_patch_size = Some (patch_size base_config),
      k_in_channels = Some (in_channels base_config),
      k_dim = Some (dim base_config),
      k_n_layers = Some (n_layers base_config),
      k_n_heads = Some (n_heads base_config),
      k_n_kv_heads = Some (Some (n_kv_heads base_config)),
      k_qk_norm = Some (qk_norm base_config),
      k_norm_eps = Some (norm_eps base_config),
      k_eva_embedding_size = Some (eva_embedding_size base_config),
      k_mlp_hidden_dim = Some (mlp_hidden_dim base_config),
      k_mlp_num_layers = Some (mlp_num_layers base_config),
      k_mlp_dropout = Some (mlp_dropout base_config),
      k_mlp_activation = Some (mlp_activation base_config),
      k_learn_sigma = Some (learn_sigma base_config),
      k_gradient_checkpointing = Some (p_gradient_checkpointing base_config),
      k_rope_base = Some (rope_base base_config),
      k_rope_scaling = Some (rope_scaling base_config),
      k_initializer_range = Some (initializer_range base_config),
      k_use_flash_attention = Some (use_flash_attention base_config),
      k_attention_dropout = Some (attention_dropout base_config),
      k_intermediate_size = Some (Some (intermediate_size base_config)),
      k_hidden_dropout = Some (hidden_dropout base_config),
      k_max_position_embeddings = Some (max_position_embeddings base_config)\<rparr>"

definition get_dual_supervision_config ::
  "BLIP3oDiTConfig option \<Rightarrow> kwargs \<Rightarrow> error + BLIP3oDiTConfig" where
  "get_dual_supervision_config base_config kw =
     (case base_config of
        None \<Rightarrow> BLIP3oDiTConfig_init (dict_update dual_supervision_keys kw)
      | Some b \<Rightarrow>
          BLIP3oDiTConfig_init
            (dict_update (config_dict b) (dict_update dual_supervision_keys kw)))"

definition get_default_flow_matching_config :: "error + FlowMatchingConfig" where
  "get_default_flow_matching_config = FlowMatchingConfig_init FlowMatchingConfig_defaults"

definition get_enhanced_flow_matching_config :: "error + FlowMatchingConfig" where
  "get_enhanced_flow_matching_config =
     FlowMatchingConfig_init
       (FlowMatchingConfig_defaults
          \<lparr>alignment_loss_weight := Fin (1 / 10), temporal_loss_weight := Fin (5 / 100),
           use_progressive_training := True, schedule_type := ''cosine''\<rparr>)"

definition get_dual_supervision_flow_matching_config :: "error + FlowMatchingConfig" where
  "get_dual_supervision_flow_matching_config =
     FlowMatchingConfig_init
       (FlowMatchingConfig_defaults
          \<lparr>sigma_min := Fin (1 / 10000), sigma_max := Fin 1,
           prediction_type := ''v_prediction'', schedule_type := ''linear'',
           alignment_loss_weight := Fin (15 / 100), temporal_loss_weight := Fin (5 / 100),
           use_progressive_training := True, regularization_weight := Fin (1 / 100)\<rparr>)"

definition get_default_training_config :: "error + TrainingConfig" where
  "get_default_training_config = TrainingConfig_init TrainingConfig_defaults"

definition get_dual_supervision_training_config :: "error + TrainingConfig" where
  "get_dual_supervision_training_config =
     TrainingConfig_init
       (TrainingConfig_defaults
          \<lparr>learning_rate := Fin (5 / 100000), gradient_accumulation_steps := 6,
           global_loss_weight := Fin 2, patch_loss_weight := Fin 1,
           flow_matching_loss_weight := Fin 1,
           metric_for_best_model := ''eval_global_cosine_mean''\<rparr>)"

section \<open>Compatibility of a model record and a flow-matching record\<close>

definition compatibility_checks :: "BLIP3oDiTConfig \<Rightarrow> FlowMatchingConfig \<Rightarrow> error + unit" where
  "compatibility_checks model_config flow_config =
     assert_then (in_channels model_config = clip_dim flow_config)
       [Lit ''Model input channels ('', IntV (in_channels model_config),
        Lit '') must match flow CLIP dim ('', IntV (clip_dim flow_config), Lit '')''] (
     assert_then (eva_embedding_size model_config = eva_dim flow_config)
       [Lit ''Model EVA size ('', IntV (eva_embedding_size model_config),
        Lit '') must match flow EVA dim ('', IntV (eva_dim flow_config), Lit '')''] (
     assert_then (learn_sigma model_config = False)
       [Lit ''Model must use flow matching (learn_sigma=False)''] (
     Inr ())))"

text \<open>
  \<^verbatim>\<open>validate_config_compatibility\<close> as a step: it takes the two objects and the lines
  printed so far, and gives its outcome, the two objects as it leaves them and the lines
  printed after it. It assigns no attribute; it prints one line when no assertion fails.
\<close>

definition validate_config_compatibility ::
  "BLIP3oDiTConfig \<Rightarrow> FlowMatchingConfig \<Rightarrow> string list \<Rightarrow>
     (error + bool) \<times> (BLIP3oDiTConfig \<times> FlowMatchingConfig) \<times> string list" where
  "validate_config_compatibility model_config flow_config out =
     (case compatibility_checks model_config flow_config of
        Inl e \<Rightarrow> (Inl e, (model_config, flow_config), out)
      | Inr _ \<Rightarrow>
          (Inr True, (model_config, flow_config),
           out @ [[CHR 0xE2, CHR 0x9C, CHR 0x85] @ '' Configuration compatibility validated'']))"

section \<open>Presets\<close>

text \<open>
  The module-level names bound when the module is loaded, in source order; an exception
  in any of the six calls aborts the load.
\<close>

record module_globals =
  BLIP3O_SMALL :: BLIP3oDiTConfig
  BLIP3O_DEFAULT :: BLIP3oDiTConfig
  BLIP3O_LARGE :: BLIP3oDiTConfig
  BLIP3O_DUAL_SUPERVISION :: BLIP3oDiTConfig
  FLOW_MATCHING_DUAL_SUPERVISION :: FlowMatchingConfig
  FLOW_MATCHING_ENHANCED :: FlowMatchingConfig

definition and_then :: "error + 'a \<Rightarrow> ('a \<Rightarrow> error + 'b) \<Rightarrow> error + 'b" where
  "and_then r f = (case r of Inl e \<Rightarrow> Inl e | Inr v \<Rightarrow> f v)"

definition load_module :: "error + module_globals" where
  "load_module =
     and_then get_small_blip3o_config (\<lambda>small.
     and_then get_default_blip3o_config (\<lambda>default.
     and_then get_large_blip3o_config (\<lambda>large.
     and_then (get_dual_supervision_config None no_kwargs) (\<lambda>dual.
     and_then get_dual_supervision_flow_matching_config (\<lambda>flow_dual.
     and_then get_enhanced_flow_matching_config (\<lambda>flow_enhanced.
     Inr \<lparr>BLIP3O_SMALL = small, BLIP3O_DEFAULT = default, BLIP3O_LARGE = large,
          BLIP3O_DUAL_SUPERVISION = dual, FLOW_MATCHING_DUAL_SUPERVISION = flow_dual,
          FLOW_MATCHING_ENHANCED = flow_enhanced\<rparr>))))))"

text \<open>\<^verbatim>\<open>sep.join(xs)\<close>.\<close>

fun py_join :: "string \<Rightarrow> string list \<Rightarrow> string" where
  "py_join sep [] = []"
| "py_join sep [x] = x"
| "py_join sep (x # y # ys) = x @ sep @ py_join sep (y # ys)"

text \<open>
  \<^verbatim>\<open>get_preset_config\<close>, read in a loaded module. The dictionary \<^verbatim>\<open>presets\<close> keeps
  its keys in the order written, and no key occurs twice.
\<close>

definition get_preset_config :: "module_globals \<Rightarrow> string \<Rightarrow> error + BLIP3oDiTConfig" where
  "get_preset_config g preset_name =
     (let presets =
            [(''small'', BLIP3O_SMALL g),
             (''default'', BLIP3O_DEFAULT g),
             (''large'', BLIP3O_LARGE g),
             (''dual_supervision'', BLIP3O_DUAL_SUPERVISION g)]
      in case map_of presets preset_name of
           None \<Rightarrow>
             (let available = py_join '', '' (map fst presets)
              in Inl (ValueError [Lit (''Unknown preset '' @ [CHR 0x27]), StrV preset_name,
                                  Lit ([CHR 0x27] @ ''. Available: ''), StrV available]))
         | Some config \<Rightarrow> Inr config)"

section \<open>The properties, in the words of the specification\<close>

text \<open>A value lies in the closed interval from 0 to 1: a finite number between the two.\<close>

definition in_unit_interval :: "pyfloat \<Rightarrow> bool" where
  "in_unit_interval x = (case x of Fin r \<Rightarrow> 0 \<le> r \<and> r \<le> 1 | _ \<Rightarrow> False)"

text \<open>
  The invariants documented for the model-architecture record: the sizes are positive,
  the hidden dimension is a multiple of the head count, the dropout of the adaptation
  MLP is a probability, its activation is one of three names, the record is in
  flow-matching mode, and four fields are pinned to the values of the upstream feature
  extractor.
\<close>

definition documented_invariants :: "BLIP3oDiTConfig \<Rightarrow> bool" where
  "documented_invariants c \<longleftrightarrow>
     0 < dim c \<and> 0 < n_layers c \<and> 0 < n_heads c \<and> 0 < n_kv_heads c
     \<and> dim c mod n_heads c = 0
     \<and> 0 < mlp_hidden_dim c \<and> 0 < mlp_num_layers c
     \<and> in_unit_interval (mlp_dropout c)
     \<and> mlp_activation c \<in> {''gelu'', ''relu'', ''silu''}
     \<and> learn_sigma c = False
     \<and> in_channels c = 1024 \<and> eva_embedding_size c = 4096
     \<and> patch_size c = 1 \<and> input_size c = 16"

text \<open>An error names a value when the value is one of the pieces of its message.\<close>

definition names :: "error \<Rightarrow> frag \<Rightarrow> bool" where
  "names e v = (case e of AssertionError msg \<Rightarrow> v \<in> set msg
                        | ValueError msg \<Rightarrow> v \<in> set msg
                        | ZeroDivisionError \<Rightarrow> False)"

text \<open>\<open>d\<close> is a whole multiple of the nonzero number \<open>n\<close>.\<close>

definition evenly_divisible :: "int \<Rightarrow> int \<Rightarrow> bool" where
  "evenly_divisible d n \<longleftrightarrow> n \<noteq> 0 \<and> d mod n = 0"

text \<open>
  \<open>0 \<le> lo < hi \<le> bound\<close> on numbers: both ends are finite, since an infinity or
  a NaN at either end breaks one of the three links.
\<close>

definition ordered_within :: "real \<Rightarrow> pyfloat \<Rightarrow> pyfloat \<Rightarrow> bool" where
  "ordered_within bound lo hi =
     (case (lo, hi) of (Fin a, Fin b) \<Rightarrow> 0 \<le> a \<and> a < b \<and> b \<le> bound | _ \<Rightarrow> False)"

text \<open>
  The merge policy: the caller's value where the caller supplies the key, the other
  value otherwise; and the value of a field in the base configuration, or a default
  where there is no base configuration.
\<close>

definition supplied_or :: "'a option \<Rightarrow> 'a \<Rightarrow> 'a" where
  "supplied_or caller other = (case caller of Some v \<Rightarrow> v | None \<Rightarrow> other)"

definition base_or :: "BLIP3oDiTConfig option \<Rightarrow> (BLIP3oDiTConfig \<Rightarrow> 'a) \<Rightarrow> 'a \<Rightarrow> 'a" where
  "base_or base field dflt = (case base of Some b \<Rightarrow> field b | None \<Rightarrow> dflt)"

section \<open>What the validations accept\<close>

lemma in_unit_interval_iff:
  "in_unit_interval x \<longleftrightarrow> float_le (Fin 0) x \<and> float_le x (Fin 1)"
  by (cases x) (simp_all add: in_unit_interval_def)

lemma ordered_within_iff:
  "ordered_within bound lo hi \<longleftrightarrow>
     float_le (Fin 0) lo \<and> float_lt lo hi \<and> float_le hi (Fin bound)"
  by (cases lo; cases hi) (simp_all add: ordered_within_def)

lemma validate_checks_ok_iff:
  "validate_checks c = Inr () \<longleftrightarrow> documented_invariants c"
  unfolding validate_checks_def assert_then_def py_mod_def documented_invariants_def
    in_unit_interval_iff
  by (auto split: if_splits)

lemma validate_checks_cases:
  "validate_checks c = Inr () \<or> (\<exists>msg. validate_checks c = Inl (AssertionError msg))"
  unfolding validate_checks_def assert_then_def py_mod_def
  by (auto split: if_splits)

lemma init_Inr_iff:
  "BLIP3oDiTConfig_init kw = Inr c \<longleftrightarrow>
     validate_checks (init_attributes kw) = Inr () \<and> c = init_attributes kw"
  unfolding BLIP3oDiTConfig_init_def validate_config_def
  by (auto split: sum.splits)

lemma init_Inl_iff:
  "BLIP3oDiTConfig_init kw = Inl e \<longleftrightarrow> validate_checks (init_attributes kw) = Inl e"
  unfolding BLIP3oDiTConfig_init_def validate_config_def
  by (auto split: sum.splits)

lemma init_fails_unless_valid:
  assumes "\<not> documented_invariants (init_attributes kw)"
  shows "\<exists>msg. BLIP3oDiTConfig_init kw = Inl (AssertionError msg)"
  using assms validate_checks_cases [of "init_attributes kw"]
  by (simp add: init_Inl_iff validate_checks_ok_iff)

lemma divisibility_message:
  assumes "0 < dim c" "0 < n_layers c" "0 < n_heads c" "0 < n_kv_heads c"
    and "dim c mod n_heads c \<noteq> 0"
  shows "validate_checks c =
           Inl (AssertionError [Lit ''dim ('', IntV (dim c),
                                Lit '') must be divisible by n_heads ('',
                                IntV (n_heads c), Lit '')''])"
  using assms by (simp add: validate_checks_def assert_then_def py_mod_def)

lemma activation_message:
  assumes "documented_invariants (c\<lparr>mlp_activation := ''gelu''\<rparr>)"
    and "mlp_activation c \<notin> {''gelu'', ''relu'', ''silu''}"
  shows "validate_checks c =
           Inl (AssertionError [Lit ''Unknown activation: '', StrV (mlp_activation c)])"
  using assms
  by (simp add: validate_checks_def assert_then_def py_mod_def documented_invariants_def
      in_unit_interval_iff)

lemma flow_post_init_ok_iff:
  "FlowMatchingConfig_post_init v = Inr () \<longleftrightarrow>
     prediction_type v \<in> {''v_prediction'', ''epsilon''}
     \<and> schedule_type v \<in> {''linear'', ''cosine'', ''sigmoid''}
     \<and> float_le (Fin 0) (sigma_min v) \<and> float_lt (sigma_min v) (sigma_max v)
     \<and> float_le (sigma_max v) (Fin 10)
     \<and> 0 < clip_dim v \<and> 0 < eva_dim v
     \<and> float_le (Fin 0) (min_timestep v) \<and> float_lt (min_timestep v) (max_timestep v)
     \<and> float_le (max_timestep v) (Fin 1)"
  unfolding FlowMatchingConfig_post_init_def assert_then_def
  by (auto split: if_splits)

lemma flow_post_init_cases:
  "FlowMatchingConfig_post_init v = Inr ()
   \<or> (\<exists>msg. FlowMatchingConfig_post_init v = Inl (AssertionError msg))"
  unfolding FlowMatchingConfig_post_init_def assert_then_def
  by (auto split: if_splits)

lemma flow_init_Inr_iff:
  "FlowMatchingConfig_init v = Inr c \<longleftrightarrow> FlowMatchingConfig_post_init v = Inr () \<and> c = v"
  unfolding FlowMatchingConfig_init_def by (auto split: sum.splits)

lemma flow_init_Inl_iff:
  "FlowMatchingConfig_init v = Inl e \<longleftrightarrow> FlowMatchingConfig_post_init v = Inl e"
  unfolding FlowMatchingConfig_init_def by (auto split: sum.splits)

lemma training_post_init_ok_iff:
  "TrainingConfig_post_init t = Inr () \<longleftrightarrow>
     0 < num_train_epochs t \<and> 0 < per_device_train_batch_size t
     \<and> float_lt (Fin 0) (learning_rate t) \<and> in_unit_interval (weight_decay t)
     \<and> 0 < gradient_accumulation_steps t"
  unfolding TrainingConfig_post_init_def assert_then_def in_unit_interval_iff
  by (auto split: if_splits)

lemma training_post_init_cases:
  "TrainingConfig_post_init t = Inr ()
   \<or> (\<exists>msg. TrainingConfig_post_init t = Inl (AssertionError msg))"
  unfolding TrainingConfig_post_init_def assert_then_def
  by (auto split: if_splits)

lemma training_init_Inr_iff:
  "TrainingConfig_init v = Inr c \<longleftrightarrow> TrainingConfig_post_init v = Inr () \<and> c = v"
  unfolding TrainingConfig_init_def by (auto split: sum.splits)

lemma training_init_Inl_iff:
  "TrainingConfig_init v = Inl e \<longleftrightarrow> TrainingConfig_post_init v = Inl e"
  unfolding TrainingConfig_init_def by (auto split: sum.splits)

section \<open>The presets are constructed\<close>

lemma default_construction:
  "BLIP3oDiTConfig_init no_kwargs = Inr (init_attributes no_kwargs)"
  by (simp add: init_Inr_iff validate_checks_ok_iff documented_invariants_def
      init_attributes_def no_kwargs_def arg_def in_unit_interval_def)

lemma small_construction:
  "get_small_blip3o_config =
     Inr (init_attributes
            (no_kwargs\<lparr>k_dim := Some 512, k_n_layers := Some 8, k_n_heads := Some 8,
                        k_mlp_hidden_dim := Some 1024, k_mlp_num_layers := Some 2\<rparr>))"
  by (simp add: get_small_blip3o_config_def init_Inr_iff validate_checks_ok_iff
      documented_invariants_def init_attributes_def no_kwargs_def arg_def in_unit_interval_def)

lemma large_construction:
  "get_large_blip3o_config =
     Inr (init_attributes
            (no_kwargs\<lparr>k_dim := Some 1024, k_n_layers := Some 24, k_n_heads := Some 16,
                        k_mlp_hidden_dim := Some 4096, k_mlp_num_layers := Some 4\<rparr>))"
  by (simp add: get_large_blip3o_config_def init_Inr_iff validate_checks_ok_iff
      documented_invariants_def init_attributes_def no_kwargs_def arg_def in_unit_interval_def)

lemma dual_construction:
  "get_dual_supervision_config None no_kwargs =
     Inr (init_attributes (dict_update dual_supervision_keys no_kwargs))"
  by (simp add: get_dual_supervision_config_def init_Inr_iff validate_checks_ok_iff
      documented_invariants_def init_attributes_def no_kwargs_def arg_def in_unit_interval_def
      dict_update_def entry_update_def dual_supervision_keys_def)

lemma flow_dual_construction:
  "\<exists>c. get_dual_supervision_flow_matching_config = Inr c"
  by (simp add: get_dual_supervision_flow_matching_config_def flow_init_Inr_iff
      flow_post_init_ok_iff FlowMatchingConfig_defaults_def)

lemma flow_enhanced_construction:
  "\<exists>c. get_enhanced_flow_matching_config = Inr c"
  by (simp add: get_enhanced_flow_matching_config_def flow_init_Inr_iff
      flow_post_init_ok_iff FlowMatchingConfig_defaults_def)

lemma flow_default_construction:
  "get_default_flow_matching_config = Inr FlowMatchingConfig_defaults"
  by (simp add: get_default_flow_matching_config_def flow_init_Inr_iff
      flow_post_init_ok_iff FlowMatchingConfig_defaults_def)

lemma training_default_construction:
  "get_default_training_config = Inr TrainingConfig_defaults"
  by (simp add: get_default_training_config_def training_init_Inr_iff
      training_post_init_ok_iff TrainingConfig_defaults_def in_unit_interval_def)

lemma training_dual_construction:
  "\<exists>c. get_dual_supervision_training_config = Inr c"
  by (simp add: get_dual_supervision_training_config_def training_init_Inr_iff
      training_post_init_ok_iff TrainingConfig_defaults_def in_unit_interval_def)

lemma load_module_ok:
  "\<exists>g. load_module = Inr g
       \<and> BLIP3O_SMALL g =
           init_attributes
             (no_kwargs\<lparr>k_dim := Some 512, k_n_layers := Some 8, k_n_heads := Some 8,
                         k_mlp_hidden_dim := Some 1024, k_mlp_num_layers := Some 2\<rparr>)"
proof -
  obtain fd where fd: "get_dual_supervision_flow_matching_config = Inr fd"
    using flow_dual_construction by blast
  obtain fe where fe: "get_enhanced_flow_matching_config = Inr fe"
    using flow_enhanced_construction by blast
  show ?thesis
    by (simp add: load_module_def and_then_def small_construction large_construction
        dual_construction get_default_blip3o_config_def default_construction fd fe)
qed

lemma get_preset_config_unknown:
  assumes "name \<notin> {''small'', ''default'', ''large'', ''dual_supervision''}"
  shows "get_preset_config g name =
           Inl (ValueError [Lit (''Unknown preset '' @ [CHR 0x27]), StrV name,
                            Lit ([CHR 0x27] @ ''. Available: ''),
                            StrV ''small, default, large, dual_supervision''])"
  using assms by (simp add: get_preset_config_def)

section \<open>Merging keyword arguments\<close>

lemma dual_supervision_merged:
  "get_dual_supervision_config base kw = Inr c \<Longrightarrow>
     c = init_attributes
           (case base of
              None \<Rightarrow> dict_update dual_supervision_keys kw
            | Some b \<Rightarrow> dict_update (config_dict b) (dict_update dual_supervision_keys kw))"
  by (cases base) (simp_all add: get_dual_supervision_config_def init_Inr_iff)

lemmas merge_defs =
  init_attributes_def dict_update_def entry_update_def dual_supervision_keys_def
  no_kwargs_def config_dict_def arg_def supplied_or_def base_or_def Let_def

section \<open>Construction of the model-architecture record\<close>

text \<open>
  Claim C1. Whenever the values that the constructor stores satisfy the documented
  invariants, the construction returns a record and does not raise. In that record the
  key-value head count equals the head count when \<^verbatim>\<open>n_kv_heads\<close> was left unset (not
  passed, or passed as \<^verbatim>\<open>None\<close>), the feed-forward width equals four times the hidden
  dimension when \<^verbatim>\<open>intermediate_size\<close> was left unset, \<^verbatim>\<open>get_num_tokens\<close> returns
  the square of the grid size, and \<^verbatim>\<open>get_head_dim\<close> returns the hidden dimension
  divided by the head count, a division without remainder.
\<close>

theorem C1_valid_construction:
  assumes "documented_invariants (init_attributes kw)"
  shows "\<exists>c. BLIP3oDiTConfig_init kw = Inr c
     \<and> (k_n_kv_heads kw = None \<or> k_n_kv_heads kw = Some None \<longrightarrow> n_kv_heads c = n_heads c)
     \<and> (k_intermediate_size kw = None \<or> k_intermediate_size kw = Some None
          \<longrightarrow> intermediate_size c = 4 * dim c)
     \<and> get_num_tokens c = input_size c * input_size c
     \<and> get_head_dim c = Inr (dim c div n_heads c)
     \<and> (dim c div n_heads c) * n_heads c = dim c"
proof -
  let ?c = "init_attributes kw"
  have ok: "BLIP3oDiTConfig_init kw = Inr ?c"
    using assms by (simp add: init_Inr_iff validate_checks_ok_iff)
  have kv: "k_n_kv_heads kw = None \<or> k_n_kv_heads kw = Some None
          \<longrightarrow> n_kv_heads ?c = n_heads ?c"
    by (auto simp: init_attributes_def arg_def Let_def)
  have im: "k_intermediate_size kw = None \<or> k_intermediate_size kw = Some None
          \<longrightarrow> intermediate_size ?c = 4 * dim ?c"
    by (auto simp: init_attributes_def arg_def Let_def)
  have pos: "0 < n_heads ?c" and dv: "dim ?c mod n_heads ?c = 0"
    using assms by (simp_all add: documented_invariants_def)
  have hd: "get_head_dim ?c = Inr (dim ?c div n_heads ?c)"
    using pos by (simp add: get_head_dim_def py_floordiv_def)
  have ex: "(dim ?c div n_heads ?c) * n_heads ?c = dim ?c"
    using dv by (simp add: mod_0_imp_dvd)
  show ?thesis
    using ok kv im hd ex by (simp add: get_num_tokens_def)
qed

theorem C1_witness:
  "documented_invariants (init_attributes (no_kwargs\<lparr>k_dim := Some 512, k_n_heads := Some 8\<rparr>))
   \<and> (\<exists>c. BLIP3oDiTConfig_init (no_kwargs\<lparr>k_dim := Some 512, k_n_heads := Some 8\<rparr>) = Inr c
          \<and> n_kv_heads c = 8 \<and> intermediate_size c = 2048 \<and> get_num_tokens c = 256
          \<and> get_head_dim c = Inr 64)"
proof -
  let ?kw = "no_kwargs\<lparr>k_dim := Some 512, k_n_heads := Some 8\<rparr>"
  have h: "documented_invariants (init_attributes ?kw)"
    by (simp add: documented_invariants_def init_attributes_def no_kwargs_def arg_def
        in_unit_interval_def)
  from C1_valid_construction [OF h] obtain c where
    c: "BLIP3oDiTConfig_init ?kw = Inr c"
       "k_n_kv_heads ?kw = None \<or> k_n_kv_heads ?kw = Some None \<longrightarrow> n_kv_heads c = n_heads c"
       "k_intermediate_size ?kw = None \<or> k_intermediate_size ?kw = Some None
          \<longrightarrow> intermediate_size c = 4 * dim c"
       "get_num_tokens c = input_size c * input_size c"
       "get_head_dim c = Inr (dim c div n_heads c)"
    by blast
  from c(1) have eq: "c = init_attributes ?kw" by (simp add: init_Inr_iff)
  have v: "dim c = 512" "n_heads c = 8" "input_size c = 16"
    unfolding eq by (simp_all add: init_attributes_def no_kwargs_def arg_def)
  have k: "k_n_kv_heads ?kw = None" "k_intermediate_size ?kw = None"
    by (simp_all add: no_kwargs_def)
  show ?thesis using h c v k by simp
qed

section \<open>Preset lookup\<close>

text \<open>
  Claim C2. The module loads, and in the loaded module \<^verbatim>\<open>get_preset_config("small")\<close>
  returns a record with hidden dimension 512, 8 layers and 8 heads, while every name
  other than the four preset names raises a \<^verbatim>\<open>ValueError\<close> whose message quotes the
  name and lists the valid names as \<^verbatim>\<open>small, default, large, dual_supervision\<close>.
\<close>

theorem C2_preset_lookup:
  "\<exists>g. load_module = Inr g
     \<and> (\<exists>c. get_preset_config g ''small'' = Inr c
             \<and> dim c = 512 \<and> n_layers c = 8 \<and> n_heads c = 8)
     \<and> (\<forall>name. name \<notin> {''small'', ''default'', ''large'', ''dual_supervision''} \<longrightarrow>
           get_preset_config g name =
             Inl (ValueError [Lit (''Unknown preset '' @ [CHR 0x27]), StrV name,
                              Lit ([CHR 0x27] @ ''. Available: ''),
                              StrV ''small, default, large, dual_supervision'']))"
proof -
  obtain g where g: "load_module = Inr g"
    and s: "BLIP3O_SMALL g =
              init_attributes
                (no_kwargs\<lparr>k_dim := Some 512, k_n_layers := Some 8, k_n_heads := Some 8,
                            k_mlp_hidden_dim := Some 1024, k_mlp_num_layers := Some 2\<rparr>)"
    using load_module_ok by (elim exE conjE)
  have look: "get_preset_config g ''small'' = Inr (BLIP3O_SMALL g)"
    by (simp add: get_preset_config_def)
  have vals: "dim (BLIP3O_SMALL g) = 512" "n_layers (BLIP3O_SMALL g) = 8"
    "n_heads (BLIP3O_SMALL g) = 8"
    unfolding s by (simp_all add: init_attributes_def no_kwargs_def arg_def)
  show ?thesis
    by (intro exI [of _ g] exI [of _ "BLIP3O_SMALL g"] conjI allI impI)
       (fact g look vals | erule get_preset_config_unknown)+
qed

theorem C2_witness:
  "\<exists>g. load_module = Inr g
     \<and> get_preset_config g ''bogus'' =
         Inl (ValueError [Lit (''Unknown preset '' @ [CHR 0x27]), StrV ''bogus'',
                          Lit ([CHR 0x27] @ ''. Available: ''),
                          StrV ''small, default, large, dual_supervision''])"
proof -
  have n: "''bogus'' \<notin> {''small'', ''default'', ''large'', ''dual_supervision''}" by simp
  from C2_preset_lookup obtain g where g: "load_module = Inr g"
    and u: "\<forall>name. name \<notin> {''small'', ''default'', ''large'', ''dual_supervision''} \<longrightarrow>
           get_preset_config g name =
             Inl (ValueError [Lit (''Unknown preset '' @ [CHR 0x27]), StrV name,
                              Lit ([CHR 0x27] @ ''. Available: ''),
                              StrV ''small, default, large, dual_supervision''])"
    by (elim exE conjE)
  from u [rule_format, OF n] g show ?thesis
    by (intro exI [of _ g] conjI)
qed

section \<open>Rejected constructions\<close>

text \<open>
  Claim C3, as amended. When the hidden dimension is not a whole multiple of the head
  count, the construction fails with an \<^verbatim>\<open>AssertionError\<close>. When moreover the hidden
  dimension, the layer count, the head count and the key-value head count are positive,
  so that the four assertions before the divisibility check pass, the error is the
  divisibility message, which carries both values.
\<close>

theorem C3_indivisible_dim_rejected:
  "\<not> evenly_divisible (dim (init_attributes kw)) (n_heads (init_attributes kw)) \<longrightarrow>
     (\<exists>msg. BLIP3oDiTConfig_init kw = Inl (AssertionError msg))
     \<and> (0 < dim (init_attributes kw) \<and> 0 < n_layers (init_attributes kw)
        \<and> 0 < n_heads (init_attributes kw) \<and> 0 < n_kv_heads (init_attributes kw) \<longrightarrow>
          BLIP3oDiTConfig_init kw =
            Inl (AssertionError [Lit ''dim ('', IntV (dim (init_attributes kw)),
                                 Lit '') must be divisible by n_heads ('',
                                 IntV (n_heads (init_attributes kw)), Lit '')'']))"
proof (intro impI conjI)
  assume nd: "\<not> evenly_divisible (dim (init_attributes kw)) (n_heads (init_attributes kw))"
  then have "\<not> documented_invariants (init_attributes kw)"
    by (auto simp: documented_invariants_def evenly_divisible_def)
  then show "\<exists>msg. BLIP3oDiTConfig_init kw = Inl (AssertionError msg)"
    by (rule init_fails_unless_valid)
next
  assume nd: "\<not> evenly_divisible (dim (init_attributes kw)) (n_heads (init_attributes kw))"
    and pos: "0 < dim (init_attributes kw) \<and> 0 < n_layers (init_attributes kw)
        \<and> 0 < n_heads (init_attributes kw) \<and> 0 < n_kv_heads (init_attributes kw)"
  from nd pos have "dim (init_attributes kw) mod n_heads (init_attributes kw) \<noteq> 0"
    by (auto simp: evenly_divisible_def)
  with pos show "BLIP3oDiTConfig_init kw =
            Inl (AssertionError [Lit ''dim ('', IntV (dim (init_attributes kw)),
                                 Lit '') must be divisible by n_heads ('',
                                 IntV (n_heads (init_attributes kw)), Lit '')''])"
    by (simp add: init_Inl_iff divisibility_message)
qed

theorem C3_witness:
  "\<not> evenly_divisible 100 12
   \<and> BLIP3oDiTConfig_init (no_kwargs\<lparr>k_dim := Some 100\<rparr>) =
       Inl (AssertionError [Lit ''dim ('', IntV 100,
                            Lit '') must be divisible by n_heads ('', IntV 12, Lit '')''])
   \<and> names (AssertionError [Lit ''dim ('', IntV 100,
                            Lit '') must be divisible by n_heads ('', IntV 12, Lit '')''])
            (IntV 100)
   \<and> names (AssertionError [Lit ''dim ('', IntV 100,
                            Lit '') must be divisible by n_heads ('', IntV 12, Lit '')''])
            (IntV 12)"
  using C3_indivisible_dim_rejected [of "no_kwargs\<lparr>k_dim := Some 100\<rparr>"]
  by (simp add: evenly_divisible_def init_attributes_def no_kwargs_def arg_def names_def)

text \<open>
  The claim as worded, for every pair, fails at a hidden dimension of \<open>-7\<close> with 2
  heads: the remainder is 1, and the constructor stops at the first assertion, whose
  message carries neither value.
\<close>

theorem C3_counterexample:
  "\<not> evenly_divisible (-7) 2
   \<and> BLIP3oDiTConfig_init (no_kwargs\<lparr>k_dim := Some (-7), k_n_heads := Some 2\<rparr>) =
       Inl (AssertionError [Lit ''Model dimension must be positive''])
   \<and> \<not> names (AssertionError [Lit ''Model dimension must be positive'']) (IntV (-7))
   \<and> \<not> names (AssertionError [Lit ''Model dimension must be positive'']) (IntV 2)"
  by (simp add: evenly_divisible_def init_Inl_iff validate_checks_def assert_then_def
      init_attributes_def no_kwargs_def arg_def names_def)

text \<open>
  Claim C4, as amended. A value of \<^verbatim>\<open>mlp_dropout\<close> outside the interval from 0 to 1
  makes the construction of the model-architecture record fail with an
  \<^verbatim>\<open>AssertionError\<close>, and so does a value of \<^verbatim>\<open>weight_decay\<close> outside it for the
  training record. The fields \<^verbatim>\<open>attention_dropout\<close> and \<^verbatim>\<open>hidden_dropout\<close> are
  stored without a range check: on overrides that are otherwise valid the construction
  succeeds for any value of the two and keeps them.
\<close>

theorem C4_dropout_weight_decay:
  "(\<not> in_unit_interval (mlp_dropout (init_attributes kw)) \<longrightarrow>
      (\<exists>msg. BLIP3oDiTConfig_init kw = Inl (AssertionError msg)))
   \<and> (\<not> in_unit_interval (weight_decay t) \<longrightarrow>
      (\<exists>msg. TrainingConfig_init t = Inl (AssertionError msg)))
   \<and> (documented_invariants (init_attributes kw) \<longrightarrow>
      (\<exists>c. BLIP3oDiTConfig_init (kw\<lparr>k_attention_dropout := Some a, k_hidden_dropout := Some h\<rparr>)
             = Inr c
           \<and> attention_dropout c = a \<and> hidden_dropout c = h))"
proof (intro conjI impI)
  assume "\<not> in_unit_interval (mlp_dropout (init_attributes kw))"
  then have "\<not> documented_invariants (init_attributes kw)"
    by (simp add: documented_invariants_def)
  then show "\<exists>msg. BLIP3oDiTConfig_init kw = Inl (AssertionError msg)"
    by (rule init_fails_unless_valid)
next
  assume "\<not> in_unit_interval (weight_decay t)"
  then have "TrainingConfig_post_init t \<noteq> Inr ()"
    by (simp add: training_post_init_ok_iff)
  with training_post_init_cases [of t]
  show "\<exists>msg. TrainingConfig_init t = Inl (AssertionError msg)"
    by (simp add: training_init_Inl_iff)
next
  let ?kw = "kw\<lparr>k_attention_dropout := Some a, k_hidden_dropout := Some h\<rparr>"
  assume "documented_invariants (init_attributes kw)"
  then have "documented_invariants (init_attributes ?kw)"
    by (simp add: documented_invariants_def init_attributes_def Let_def)
  then have "BLIP3oDiTConfig_init ?kw = Inr (init_attributes ?kw)"
    by (simp add: init_Inr_iff validate_checks_ok_iff)
  moreover have "attention_dropout (init_attributes ?kw) = a"
    "hidden_dropout (init_attributes ?kw) = h"
    by (simp_all add: init_attributes_def arg_def Let_def)
  ultimately show "\<exists>c. BLIP3oDiTConfig_init ?kw = Inr c
           \<and> attention_dropout c = a \<and> hidden_dropout c = h"
    by simp
qed

theorem C4_witness:
  "\<not> in_unit_interval (Fin (3 / 2))
   \<and> (\<exists>msg. BLIP3oDiTConfig_init (no_kwargs\<lparr>k_mlp_dropout := Some (Fin (3 / 2))\<rparr>)
              = Inl (AssertionError msg))
   \<and> (\<exists>msg. TrainingConfig_init (TrainingConfig_defaults\<lparr>weight_decay := Fin (3 / 2)\<rparr>)
              = Inl (AssertionError msg))
   \<and> documented_invariants (init_attributes no_kwargs)
   \<and> (\<exists>c. BLIP3oDiTConfig_init
              (no_kwargs\<lparr>k_attention_dropout := Some (Fin 5), k_hidden_dropout := Some NaN\<rparr>)
             = Inr c
           \<and> attention_dropout c = Fin 5 \<and> hidden_dropout c = NaN)"
proof -
  have a: "\<not> in_unit_interval (Fin (3 / 2))"
    by (simp add: in_unit_interval_def)
  have b: "mlp_dropout (init_attributes (no_kwargs\<lparr>k_mlp_dropout := Some (Fin (3 / 2))\<rparr>))
             = Fin (3 / 2)"
    by (simp add: init_attributes_def arg_def Let_def)
  have c: "weight_decay (TrainingConfig_defaults\<lparr>weight_decay := Fin (3 / 2)\<rparr>) = Fin (3 / 2)"
    by simp
  have d: "documented_invariants (init_attributes no_kwargs)"
    by (simp add: documented_invariants_def init_attributes_def no_kwargs_def arg_def
        in_unit_interval_def)
  show ?thesis
    using a b c d
      C4_dropout_weight_decay [where kw = "no_kwargs\<lparr>k_mlp_dropout := Some (Fin (3 / 2))\<rparr>"
        and t = "TrainingConfig_defaults\<lparr>weight_decay := Fin (3 / 2)\<rparr>"]
      C4_dropout_weight_decay [where kw = no_kwargs and a = "Fin 5" and h = NaN]
    by simp
qed

text \<open>
  The claim as worded fails for \<^verbatim>\<open>attention_dropout\<close>: the value 5 is accepted and
  stored.
\<close>

theorem C4_counterexample:
  "\<not> in_unit_interval (Fin 5)
   \<and> BLIP3oDiTConfig_init (no_kwargs\<lparr>k_attention_dropout := Some (Fin 5)\<rparr>) =
       Inr (init_attributes (no_kwargs\<lparr>k_attention_dropout := Some (Fin 5)\<rparr>))
   \<and> attention_dropout (init_attributes (no_kwargs\<lparr>k_attention_dropout := Some (Fin 5)\<rparr>))
       = Fin 5"
  by (simp add: in_unit_interval_def init_Inr_iff validate_checks_ok_iff
      documented_invariants_def init_attributes_def no_kwargs_def arg_def)

section \<open>Compatibility of the two records\<close>

text \<open>
  Claim C5. \<^verbatim>\<open>validate_config_compatibility\<close> returns \<^verbatim>\<open>True\<close> when the input
  channels equal the CLIP dimension, the conditioning dimensions are equal and
  \<^verbatim>\<open>learn_sigma\<close> is false. It checks the three relationships in this order and raises
  an \<^verbatim>\<open>AssertionError\<close> at the first one violated; for each of the two dimension pairs
  the message carries both mismatched values.
\<close>

theorem C5_compatibility:
  "(in_channels m = clip_dim f \<and> eva_embedding_size m = eva_dim f \<and> learn_sigma m = False
      \<longrightarrow> fst (validate_config_compatibility m f out) = Inr True)
   \<and> (in_channels m \<noteq> clip_dim f \<longrightarrow>
        fst (validate_config_compatibility m f out) =
          Inl (AssertionError
                 [Lit ''Model input channels ('', IntV (in_channels m),
                  Lit '') must match flow CLIP dim ('', IntV (clip_dim f), Lit '')'']))
   \<and> (in_channels m = clip_dim f \<and> eva_embedding_size m \<noteq> eva_dim f \<longrightarrow>
        fst (validate_config_compatibility m f out) =
          Inl (AssertionError
                 [Lit ''Model EVA size ('', IntV (eva_embedding_size m),
                  Lit '') must match flow EVA dim ('', IntV (eva_dim f), Lit '')'']))
   \<and> (in_channels m = clip_dim f \<and> eva_embedding_size m = eva_dim f \<and> learn_sigma m \<noteq> False
        \<longrightarrow> fst (validate_config_compatibility m f out) =
          Inl (AssertionError [Lit ''Model must use flow matching (learn_sigma=False)'']))"
proof (intro conjI impI)
  assume "in_channels m = clip_dim f \<and> eva_embedding_size m = eva_dim f \<and> learn_sigma m = False"
  then have "compatibility_checks m f = Inr ()"
    by (simp add: compatibility_checks_def assert_then_def)
  then show "fst (validate_config_compatibility m f out) = Inr True"
    by (simp add: validate_config_compatibility_def)
next
  assume "in_channels m \<noteq> clip_dim f"
  then have "compatibility_checks m f =
               Inl (AssertionError
                      [Lit ''Model input channels ('', IntV (in_channels m),
                       Lit '') must match flow CLIP dim ('', IntV (clip_dim f), Lit '')''])"
    by (simp add: compatibility_checks_def assert_then_def)
  then show "fst (validate_config_compatibility m f out) =
               Inl (AssertionError
                      [Lit ''Model input channels ('', IntV (in_channels m),
                       Lit '') must match flow CLIP dim ('', IntV (clip_dim f), Lit '')''])"
    by (simp add: validate_config_compatibility_def)
next
  assume "in_channels m = clip_dim f \<and> eva_embedding_size m \<noteq> eva_dim f"
  then have "compatibility_checks m f =
               Inl (AssertionError
                      [Lit ''Model EVA size ('', IntV (eva_embedding_size m),
                       Lit '') must match flow EVA dim ('', IntV (eva_dim f), Lit '')''])"
    by (simp add: compatibility_checks_def assert_then_def)
  then show "fst (validate_config_compatibility m f out) =
               Inl (AssertionError
                      [Lit ''Model EVA size ('', IntV (eva_embedding_size m),
                       Lit '') must match flow EVA dim ('', IntV (eva_dim f), Lit '')''])"
    by (simp add: validate_config_compatibility_def)
next
  assume "in_channels m = clip_dim f \<and> eva_embedding_size m = eva_dim f
            \<and> learn_sigma m \<noteq> False"
  then have "compatibility_checks m f =
               Inl (AssertionError [Lit ''Model must use flow matching (learn_sigma=False)''])"
    by (simp add: compatibility_checks_def assert_then_def)
  then show "fst (validate_config_compatibility m f out) =
               Inl (AssertionError [Lit ''Model must use flow matching (learn_sigma=False)''])"
    by (simp add: validate_config_compatibility_def)
qed

theorem C5_witness:
  "fst (validate_config_compatibility (init_attributes no_kwargs) FlowMatchingConfig_defaults [])
     = Inr True
   \<and> fst (validate_config_compatibility (init_attributes no_kwargs)
            (FlowMatchingConfig_defaults\<lparr>eva_dim := 768\<rparr>) [])
     = Inl (AssertionError [Lit ''Model EVA size ('', IntV 4096,
                            Lit '') must match flow EVA dim ('', IntV 768, Lit '')''])
   \<and> fst (validate_config_compatibility ((init_attributes no_kwargs)\<lparr>in_channels := 512\<rparr>)
            (FlowMatchingConfig_defaults\<lparr>eva_dim := 768\<rparr>) [])
     = Inl (AssertionError [Lit ''Model input channels ('', IntV 512,
                            Lit '') must match flow CLIP dim ('', IntV 1024, Lit '')''])
   \<and> fst (validate_config_compatibility ((init_attributes no_kwargs)\<lparr>learn_sigma := True\<rparr>)
            FlowMatchingConfig_defaults [])
     = Inl (AssertionError [Lit ''Model must use flow matching (learn_sigma=False)''])"
proof -
  let ?m = "init_attributes no_kwargs"
  let ?f = "FlowMatchingConfig_defaults"
  have m: "in_channels ?m = 1024" "eva_embedding_size ?m = 4096" "learn_sigma ?m = False"
    by (simp_all add: init_attributes_def no_kwargs_def arg_def)
  have f: "clip_dim ?f = 1024" "eva_dim ?f = 4096"
    by (simp_all add: FlowMatchingConfig_defaults_def)
  show ?thesis
    using m f
      C5_compatibility [where m = ?m and f = ?f and out = "[]"]
      C5_compatibility [where m = ?m and f = "?f\<lparr>eva_dim := 768\<rparr>" and out = "[]"]
      C5_compatibility [where m = "?m\<lparr>in_channels := 512\<rparr>"
                          and f = "?f\<lparr>eva_dim := 768\<rparr>" and out = "[]"]
      C5_compatibility [where m = "?m\<lparr>learn_sigma := True\<rparr>" and f = ?f and out = "[]"]
    by simp
qed

section \<open>Ranges of the flow-matching record\<close>

text \<open>
  Claim C6. The construction of a flow-matching record succeeds only when
  \<open>0 \<le> sigma_min < sigma_max \<le> 10\<close> and \<open>0 \<le> min_timestep < max_timestep \<le> 1\<close>;
  values that violate either chain make it fail with an \<^verbatim>\<open>AssertionError\<close>.
\<close>

theorem C6_sigma_timestep_ranges:
  "((\<exists>c. FlowMatchingConfig_init v = Inr c) \<longrightarrow>
      ordered_within 10 (sigma_min v) (sigma_max v)
      \<and> ordered_within 1 (min_timestep v) (max_timestep v))
   \<and> (\<not> (ordered_within 10 (sigma_min v) (sigma_max v)
          \<and> ordered_within 1 (min_timestep v) (max_timestep v)) \<longrightarrow>
      (\<exists>msg. FlowMatchingConfig_init v = Inl (AssertionError msg)))"
proof (intro conjI impI)
  assume "\<exists>c. FlowMatchingConfig_init v = Inr c"
  then have "FlowMatchingConfig_post_init v = Inr ()"
    by (auto simp: flow_init_Inr_iff)
  then show "ordered_within 10 (sigma_min v) (sigma_max v)"
    and "ordered_within 1 (min_timestep v) (max_timestep v)"
    by (simp_all add: flow_post_init_ok_iff ordered_within_iff)
next
  assume "\<not> (ordered_within 10 (sigma_min v) (sigma_max v)
          \<and> ordered_within 1 (min_timestep v) (max_timestep v))"
  then have "FlowMatchingConfig_post_init v \<noteq> Inr ()"
    by (auto simp: flow_post_init_ok_iff ordered_within_iff)
  with flow_post_init_cases [of v]
  show "\<exists>msg. FlowMatchingConfig_init v = Inl (AssertionError msg)"
    by (simp add: flow_init_Inl_iff)
qed

theorem C6_witness:
  "FlowMatchingConfig_init FlowMatchingConfig_defaults = Inr FlowMatchingConfig_defaults
   \<and> ordered_within 10 (Fin (1 / 10000)) (Fin 1)
   \<and> ordered_within 1 (Fin (1 / 1000)) (Fin (999 / 1000))
   \<and> \<not> ordered_within 10 (Fin 2) (Fin 1)
   \<and> (\<exists>msg. FlowMatchingConfig_init (FlowMatchingConfig_defaults\<lparr>sigma_min := Fin 2\<rparr>)
              = Inl (AssertionError msg))
   \<and> \<not> ordered_within 1 (Fin (1 / 1000)) (Fin (3 / 2))
   \<and> (\<exists>msg. FlowMatchingConfig_init (FlowMatchingConfig_defaults\<lparr>max_timestep := Fin (3 / 2)\<rparr>)
              = Inl (AssertionError msg))"
proof -
  let ?d = "FlowMatchingConfig_defaults"
  have ok: "FlowMatchingConfig_init ?d = Inr ?d"
    by (simp add: flow_init_Inr_iff flow_post_init_ok_iff FlowMatchingConfig_defaults_def)
  then have ex: "\<exists>c. FlowMatchingConfig_init ?d = Inr c" by (rule exI)
  have d: "sigma_min ?d = Fin (1 / 10000)" "sigma_max ?d = Fin 1"
    "min_timestep ?d = Fin (1 / 1000)" "max_timestep ?d = Fin (999 / 1000)"
    by (simp_all add: FlowMatchingConfig_defaults_def)
  have n: "\<not> ordered_within 10 (Fin 2) (Fin 1)" "\<not> ordered_within 1 (Fin (1 / 1000)) (Fin (3 / 2))"
    by (simp_all add: ordered_within_def)
  show ?thesis
    using ok ex d n
      C6_sigma_timestep_ranges [where v = ?d]
      C6_sigma_timestep_ranges [where v = "?d\<lparr>sigma_min := Fin 2\<rparr>"]
      C6_sigma_timestep_ranges [where v = "?d\<lparr>max_timestep := Fin (3 / 2)\<rparr>"]
    by simp
qed

section \<open>Categorical fields\<close>

text \<open>
  Claim C7, as amended. A categorical field outside its enumerated set makes the
  construction fail with an \<^verbatim>\<open>AssertionError\<close>. The error names the offending value
  when the checks before it pass: for \<^verbatim>\<open>mlp_activation\<close> when all other fields of the
  model-architecture record are valid, for \<^verbatim>\<open>prediction_type\<close> always, since it is
  checked first, and for \<^verbatim>\<open>schedule_type\<close> when \<^verbatim>\<open>prediction_type\<close> is valid.
\<close>

theorem C7_categorical_fields:
  "(mlp_activation (init_attributes kw) \<notin> {''gelu'', ''relu'', ''silu''} \<longrightarrow>
      (\<exists>msg. BLIP3oDiTConfig_init kw = Inl (AssertionError msg))
      \<and> (documented_invariants ((init_attributes kw)\<lparr>mlp_activation := ''gelu''\<rparr>) \<longrightarrow>
           BLIP3oDiTConfig_init kw =
             Inl (AssertionError [Lit ''Unknown activation: '',
                                  StrV (mlp_activation (init_attributes kw))])))
   \<and> (prediction_type v \<notin> {''v_prediction'', ''epsilon''} \<longrightarrow>
        FlowMatchingConfig_init v =
          Inl (AssertionError [Lit ''Invalid prediction type: '', StrV (prediction_type v)]))
   \<and> (schedule_type v \<notin> {''linear'', ''cosine'', ''sigmoid''} \<longrightarrow>
        (\<exists>msg. FlowMatchingConfig_init v = Inl (AssertionError msg))
        \<and> (prediction_type v \<in> {''v_prediction'', ''epsilon''} \<longrightarrow>
             FlowMatchingConfig_init v =
               Inl (AssertionError [Lit ''Invalid schedule type: '', StrV (schedule_type v)])))"
proof (intro conjI impI)
  assume "mlp_activation (init_attributes kw) \<notin> {''gelu'', ''relu'', ''silu''}"
  then have "\<not> documented_invariants (init_attributes kw)"
    by (simp add: documented_invariants_def)
  then show "\<exists>msg. BLIP3oDiTConfig_init kw = Inl (AssertionError msg)"
    by (rule init_fails_unless_valid)
next
  assume "mlp_activation (init_attributes kw) \<notin> {''gelu'', ''relu'', ''silu''}"
    and "documented_invariants ((init_attributes kw)\<lparr>mlp_activation := ''gelu''\<rparr>)"
  then show "BLIP3oDiTConfig_init kw =
             Inl (AssertionError [Lit ''Unknown activation: '',
                                  StrV (mlp_activation (init_attributes kw))])"
    by (simp add: init_Inl_iff activation_message)
next
  assume "prediction_type v \<notin> {''v_prediction'', ''epsilon''}"
  then show "FlowMatchingConfig_init v =
          Inl (AssertionError [Lit ''Invalid prediction type: '', StrV (prediction_type v)])"
    by (simp add: flow_init_Inl_iff FlowMatchingConfig_post_init_def assert_then_def)
next
  assume "schedule_type v \<notin> {''linear'', ''cosine'', ''sigmoid''}"
  then have "FlowMatchingConfig_post_init v \<noteq> Inr ()"
    by (simp add: flow_post_init_ok_iff)
  with flow_post_init_cases [of v]
  show "\<exists>msg. FlowMatchingConfig_init v = Inl (AssertionError msg)"
    by (simp add: flow_init_Inl_iff)
next
  assume "schedule_type v \<notin> {''linear'', ''cosine'', ''sigmoid''}"
    and "prediction_type v \<in> {''v_prediction'', ''epsilon''}"
  then show "FlowMatchingConfig_init v =
               Inl (AssertionError [Lit ''Invalid schedule type: '', StrV (schedule_type v)])"
    by (simp add: flow_init_Inl_iff FlowMatchingConfig_post_init_def assert_then_def)
qed

theorem C7_witness:
  "''tanh'' \<notin> {''gelu'', ''relu'', ''silu''}
   \<and> BLIP3oDiTConfig_init (no_kwargs\<lparr>k_mlp_activation := Some ''tanh''\<rparr>) =
       Inl (AssertionError [Lit ''Unknown activation: '', StrV ''tanh''])
   \<and> ''x0'' \<notin> {''v_prediction'', ''epsilon''}
   \<and> FlowMatchingConfig_init (FlowMatchingConfig_defaults\<lparr>prediction_type := ''x0''\<rparr>) =
       Inl (AssertionError [Lit ''Invalid prediction type: '', StrV ''x0''])
   \<and> ''exp'' \<notin> {''linear'', ''cosine'', ''sigmoid''}
   \<and> FlowMatchingConfig_init (FlowMatchingConfig_defaults\<lparr>schedule_type := ''exp''\<rparr>) =
       Inl (AssertionError [Lit ''Invalid schedule type: '', StrV ''exp''])"
proof -
  let ?kw = "no_kwargs\<lparr>k_mlp_activation := Some ''tanh''\<rparr>"
  let ?d = "FlowMatchingConfig_defaults"
  have a: "mlp_activation (init_attributes ?kw) = ''tanh''"
    by (simp add: init_attributes_def arg_def Let_def)
  have b: "documented_invariants ((init_attributes ?kw)\<lparr>mlp_activation := ''gelu''\<rparr>)"
    by (simp add: documented_invariants_def init_attributes_def no_kwargs_def arg_def
        in_unit_interval_def)
  have p: "prediction_type ?d = ''v_prediction''"
    by (simp add: FlowMatchingConfig_defaults_def)
  show ?thesis
    using a b p
      C7_categorical_fields [where kw = ?kw and v = "?d\<lparr>prediction_type := ''x0''\<rparr>"]
      C7_categorical_fields [where kw = ?kw and v = "?d\<lparr>schedule_type := ''exp''\<rparr>"]
    by simp
qed

text \<open>
  The claim as worded, without a condition on the other fields, fails for the activation
  \<^verbatim>\<open>tanh\<close> together with a hidden dimension of 0: the constructor stops at the first
  assertion, whose message does not carry the activation.
\<close>

theorem C7_counterexample:
  "''tanh'' \<notin> {''gelu'', ''relu'', ''silu''}
   \<and> BLIP3oDiTConfig_init (no_kwargs\<lparr>k_dim := Some 0, k_mlp_activation := Some ''tanh''\<rparr>) =
       Inl (AssertionError [Lit ''Model dimension must be positive''])
   \<and> \<not> names (AssertionError [Lit ''Model dimension must be positive'']) (StrV ''tanh'')"
  by (simp add: init_Inl_iff validate_checks_def assert_then_def
      init_attributes_def no_kwargs_def arg_def names_def)

section \<open>The dual-supervision factory\<close>

text \<open>
  Claim C8. In the record that \<^verbatim>\<open>get_dual_supervision_config\<close> returns, every field
  has the caller's value where the caller supplied the key. Where the caller did not, the
  four keys \<^verbatim>\<open>mlp_hidden_dim\<close>, \<^verbatim>\<open>mlp_num_layers\<close>, \<^verbatim>\<open>mlp_dropout\<close> and
  \<^verbatim>\<open>_gradient_checkpointing\<close> have the values of the dual-supervision preset, and every
  other field has the value of the base configuration, or the constructor's default when
  there is no base configuration. For \<^verbatim>\<open>n_kv_heads\<close> and \<^verbatim>\<open>intermediate_size\<close> a
  value of \<^verbatim>\<open>None\<close>, supplied or default, is what the constructor derives from it: the
  head count, and four times the hidden dimension.
\<close>

theorem C8_caller_keys_win:
  assumes "get_dual_supervision_config base kw = Inr c"
  shows "input_size c = supplied_or (k_input_size kw) (base_or base input_size 16)
     \<and> patch_size c = supplied_or (k_patch_size kw) (base_or base patch_size 1)
     \<and> in_channels c = supplied_or (k_in_channels kw) (base_or base in_channels 1024)
     \<and> dim c = supplied_or (k_dim kw) (base_or base dim 768)
     \<and> n_layers c = supplied_or (k_n_layers kw) (base_or base n_layers 16)
     \<and> n_heads c = supplied_or (k_n_heads kw) (base_or base n_heads 12)
     \<and> n_kv_heads c =
         (case supplied_or (k_n_kv_heads kw) (base_or base (\<lambda>b. Some (n_kv_heads b)) None) of
            Some v \<Rightarrow> v | None \<Rightarrow> n_heads c)
     \<and> qk_norm c = supplied_or (k_qk_norm kw) (base_or base qk_norm True)
     \<and> norm_eps c = supplied_or (k_norm_eps kw) (base_or base norm_eps (Fin (1 / 100000)))
     \<and> eva_embedding_size c =
         supplied_or (k_eva_embedding_size kw) (base_or base eva_embedding_size 4096)
     \<and> mlp_hidden_dim c = supplied_or (k_mlp_hidden_dim kw) 2048
     \<and> mlp_num_layers c = supplied_or (k_mlp_num_layers kw) 3
     \<and> mlp_dropout c = supplied_or (k_mlp_dropout kw) (Fin (1 / 10))
     \<and> mlp_activation c = supplied_or (k_mlp_activation kw) (base_or base mlp_activation ''gelu'')
     \<and> learn_sigma c = supplied_or (k_learn_sigma kw) (base_or base learn_sigma False)
     \<and> p_gradient_checkpointing c = supplied_or (k_gradient_checkpointing kw) True
     \<and> rope_base c = supplied_or (k_rope_base kw) (base_or base rope_base (Fin 10000))
     \<and> rope_scaling c = supplied_or (k_rope_scaling kw) (base_or base rope_scaling None)
     \<and> initializer_range c =
         supplied_or (k_initializer_range kw) (base_or base initializer_range (Fin (2 / 100)))
     \<and> use_flash_attention c =
         supplied_or (k_use_flash_attention kw) (base_or base use_flash_attention False)
     \<and> attention_dropout c =
         supplied_or (k_attention_dropout kw) (base_or base attention_dropout (Fin 0))
     \<and> intermediate_size c =
         (case supplied_or (k_intermediate_size kw)
                 (base_or base (\<lambda>b. Some (intermediate_size b)) None) of
            Some v \<Rightarrow> v | None \<Rightarrow> 4 * dim c)
     \<and> hidden_dropout c = supplied_or (k_hidden_dropout kw) (base_or base hidden_dropout (Fin 0))
     \<and> max_position_embeddings c =
         supplied_or (k_max_position_embeddings kw) (base_or base max_position_embeddings 1024)"
  unfolding dual_supervision_merged [OF assms]
  by (cases base; intro conjI; simp add: merge_defs split: option.splits)

theorem C8_witness:
  "\<exists>c. get_dual_supervision_config
          (Some (init_attributes (no_kwargs\<lparr>k_dim := Some 512, k_n_heads := Some 8\<rparr>)))
          (no_kwargs\<lparr>k_n_layers := Some 4, k_mlp_hidden_dim := Some 999\<rparr>) = Inr c
       \<and> n_layers c = 4 \<and> mlp_hidden_dim c = 999 \<and> mlp_num_layers c = 3
       \<and> dim c = 512 \<and> n_heads c = 8 \<and> n_kv_heads c = 8 \<and> intermediate_size c = 2048"
proof -
  let ?b = "init_attributes (no_kwargs\<lparr>k_dim := Some 512, k_n_heads := Some 8\<rparr>)"
  let ?kw = "no_kwargs\<lparr>k_n_layers := Some 4, k_mlp_hidden_dim := Some 999\<rparr>"
  let ?c = "init_attributes (dict_update (config_dict ?b) (dict_update dual_supervision_keys ?kw))"
  have ok: "get_dual_supervision_config (Some ?b) ?kw = Inr ?c"
    by (simp add: get_dual_supervision_config_def init_Inr_iff validate_checks_ok_iff
        documented_invariants_def in_unit_interval_def merge_defs)
  have b: "dim ?b = 512" "n_heads ?b = 8" "n_kv_heads ?b = 8" "intermediate_size ?b = 2048"
    by (simp_all add: init_attributes_def no_kwargs_def arg_def)
  have k: "k_n_layers ?kw = Some 4" "k_mlp_hidden_dim ?kw = Some 999"
    "k_mlp_num_layers ?kw = None" "k_dim ?kw = None" "k_n_heads ?kw = None"
    "k_n_kv_heads ?kw = None" "k_intermediate_size ?kw = None"
    by (simp_all add: no_kwargs_def)
  from C8_caller_keys_win [OF ok] have
    "n_layers ?c = 4 \<and> mlp_hidden_dim ?c = 999 \<and> mlp_num_layers ?c = 3
       \<and> dim ?c = 512 \<and> n_heads ?c = 8 \<and> n_kv_heads ?c = 8 \<and> intermediate_size ?c = 2048"
    unfolding k supplied_or_def base_or_def by (simp add: b)
  with ok show ?thesis by blast
qed

section \<open>Validating twice\<close>

text \<open>
  Claim C9. A successful call of \<^verbatim>\<open>_validate_config\<close> leaves the record as it was,
  and a second call on the record it leaves has the same outcome and leaves the same
  record. Likewise a successful call of \<^verbatim>\<open>validate_config_compatibility\<close> leaves
  both records as they were, and a second call has the same result.
\<close>

theorem C9_validation_idempotent:
  "(validate_config c = (Inr (), c') \<longrightarrow>
      c' = c \<and> validate_config c' = (Inr (), c'))
   \<and> (validate_config_compatibility m f out = (Inr r, (m', f'), out') \<longrightarrow>
      m' = m \<and> f' = f
      \<and> fst (validate_config_compatibility m' f' out') = Inr r
      \<and> fst (snd (validate_config_compatibility m' f' out')) = (m', f'))"
proof (intro conjI impI)
  assume "validate_config c = (Inr (), c')"
  then have ok: "validate_checks c = Inr ()" and same: "c' = c"
    by (auto simp: validate_config_def)
  from same show "c' = c" .
  from ok show "validate_config c' = (Inr (), c')"
    unfolding same by (simp add: validate_config_def)
next
  assume first: "validate_config_compatibility m f out = (Inr r, (m', f'), out')"
  then have ok: "compatibility_checks m f = Inr ()"
    by (simp add: validate_config_compatibility_def split: sum.splits)
  with first have same: "m' = m" "f' = f" and res: "r = True"
    by (auto simp: validate_config_compatibility_def)
  from same show "m' = m" and "f' = f" .
  from ok show "fst (validate_config_compatibility m' f' out') = Inr r"
    unfolding same res by (simp add: validate_config_compatibility_def)
  from ok show "fst (snd (validate_config_compatibility m' f' out')) = (m', f')"
    unfolding same by (simp add: validate_config_compatibility_def)
qed

theorem C9_witness:
  "validate_config (init_attributes no_kwargs) = (Inr (), init_attributes no_kwargs)
   \<and> fst (validate_config_compatibility (init_attributes no_kwargs)
            FlowMatchingConfig_defaults []) = Inr True
   \<and> fst (validate_config_compatibility (init_attributes no_kwargs) FlowMatchingConfig_defaults
            (snd (snd (validate_config_compatibility (init_attributes no_kwargs)
                         FlowMatchingConfig_defaults [])))) = Inr True
   \<and> fst (snd (validate_config_compatibility (init_attributes no_kwargs)
                  FlowMatchingConfig_defaults [])) =
       (init_attributes no_kwargs, FlowMatchingConfig_defaults)"
proof -
  let ?m = "init_attributes no_kwargs"
  let ?f = "FlowMatchingConfig_defaults"
  let ?line = "[CHR 0xE2, CHR 0x9C, CHR 0x85] @ '' Configuration compatibility validated''"
  have v: "validate_config ?m = (Inr (), ?m)"
    using default_construction
    by (simp add: validate_config_def init_Inr_iff)
  have k: "compatibility_checks ?m ?f = Inr ()"
    by (simp add: compatibility_checks_def assert_then_def init_attributes_def no_kwargs_def
        arg_def FlowMatchingConfig_defaults_def)
  have w: "validate_config_compatibility ?m ?f [] = (Inr True, (?m, ?f), [?line])"
    by (simp add: validate_config_compatibility_def k)
  show ?thesis
    using v w
      C9_validation_idempotent [where c = ?m and c' = ?m and m = ?m and f = ?f
        and out = "[]" and r = True and m' = ?m and f' = ?f and out' = "[?line]"]
    by simp
qed

section \<open>Pinned fields\<close>

text \<open>
  Claim C10. Every record that the constructor returns has grid size 16, patch size 1,
  1024 input channels, conditioning dimension 4096 and \<^verbatim>\<open>learn_sigma\<close> false, whatever
  the overrides were; so \<^verbatim>\<open>get_num_tokens\<close> returns 256 on it.
\<close>

theorem C10_pinned_fields:
  assumes "BLIP3oDiTConfig_init kw = Inr c"
  shows "input_size c = 16 \<and> patch_size c = 1 \<and> in_channels c = 1024
         \<and> eva_embedding_size c = 4096 \<and> learn_sigma c = False \<and> get_num_tokens c = 256"
proof -
  from assms have "documented_invariants c"
    by (simp add: init_Inr_iff validate_checks_ok_iff)
  then show ?thesis
    by (simp add: documented_invariants_def get_num_tokens_def)
qed

theorem C10_witness:
  "\<exists>c. BLIP3oDiTConfig_init no_kwargs = Inr c \<and> input_size c = 16 \<and> patch_size c = 1
       \<and> in_channels c = 1024 \<and> eva_embedding_size c = 4096 \<and> learn_sigma c = False
       \<and> get_num_tokens c = 256"
  using default_construction C10_pinned_fields [OF default_construction] by blast

end
